theory Spec2Isabelle
  imports Main "HOL-Library.Char_ord" "HOL-Library.List_Lexorder"
begin

section \<open>JavaScript values, errors and the network\<close>

text \<open>
  The values the program handles are the results of \<^verbatim>\<open>response.json()\<close> and
  \<^verbatim>\<open>JSON.parse\<close>, together with \<^verbatim>\<open>undefined\<close> (a missing property, the
  result of a function that falls off its end). Numbers are integers here: the program
  only tests a number for being zero and never computes with one. An object is the list of
  its own properties, looked up from the front.
\<close>

datatype jsval =
    JUndefined
  | JNull
  | JBool bool
  | JNum int
  | JStr string
  | JArr "jsval list"
  | JObj "(string \<times> jsval) list"

text \<open>
  What can be thrown: the \<^verbatim>\<open>Error\<close> that \<^verbatim>\<open>fetchWithRetry\<close> raises itself on
  a response that is not ok (with the status it quotes), a rejected \<^verbatim>\<open>fetch\<close>
  (with its message), and the errors of the runtime.
\<close>

datatype error =
    HttpError nat
  | NetworkError string
  | SyntaxError
  | TypeError
  | QuotaExceededError
  | SecurityError

text \<open>
  A response, as far as the program reads it: \<^verbatim>\<open>response.ok\<close>,
  \<^verbatim>\<open>response.status\<close> and the outcome of \<^verbatim>\<open>response.json()\<close>, which rejects
  when the body is not JSON.
\<close>

record response =
  ok :: bool
  status :: nat
  json :: "error + jsval"

text \<open>
  The network is an oracle: \<open>fetch url i\<close> is how the call of \<^verbatim>\<open>fetch(url, options)\<close>
  made in iteration \<open>i\<close> of the retry loop settles, \<open>Inl\<close> when the promise rejects.
  \<^verbatim>\<open>options\<close> is \<^verbatim>\<open>{}\<close> at every call site and is passed on unchanged, so
  it is part of the oracle. Every call is taken to settle.
\<close>

type_synonym network = "string \<Rightarrow> nat \<Rightarrow> error + response"

text \<open>What a run of the helper does besides returning, in order.\<close>

datatype event =
    Fetch string
  | Warn nat
  | Timeout nat

section \<open>The retrying fetch helper\<close>

text \<open>
  \<^verbatim>\<open>
  const fetchWithRetry = async (url, options = {}, retries = 3) => {
    for (let i = 0; i < retries; i++) {
      try {
        const response = await fetch(url, options);
        if (!response.ok) throw new Error(`HTTP error! status: ${response.status}`);
        return await response.json();
      } catch (error) {
        if (i === retries - 1) throw error;
        const delay = Math.pow(2, i) * 1000;
        console.warn(`Request failed. Retrying in ${delay / 1000}s...`);
        await new Promise(resolve => setTimeout(resolve, delay));
      }
    }
  };
  \<close>
  \<open>attempt\<close> is the body of the \<^verbatim>\<open>try\<close> block on a settled call: the value it
  returns, or what it throws into the \<^verbatim>\<open>catch\<close>.
\<close>

definition attempt :: "error + response \<Rightarrow> error + jsval" where
  "attempt r =
     (case r of
        Inl e \<Rightarrow> Inl e
      | Inr resp \<Rightarrow> if \<not> ok resp then Inl (HttpError (status resp)) else json resp)"

text \<open>
  The loop, from iteration \<open>i\<close> on, with the events so far. \<open>Warn\<close> carries
  \<^verbatim>\<open>delay / 1000\<close>, \<open>Timeout\<close> the delay in milliseconds. Leaving the loop without
  a \<^verbatim>\<open>return\<close> or a \<^verbatim>\<open>throw\<close> resolves the promise with
  \<^verbatim>\<open>undefined\<close>.
\<close>

function fetchWithRetry_loop ::
  "network \<Rightarrow> string \<Rightarrow> int \<Rightarrow> nat \<Rightarrow> event list \<Rightarrow> (error + jsval) \<times> event list" where
  "fetchWithRetry_loop fetch url retries i evs =
     (if int i < retries then
        (case attempt (fetch url i) of
           Inr v \<Rightarrow> (Inr v, evs @ [Fetch url])
         | Inl e \<Rightarrow>
             if int i = retries - 1 then (Inl e, evs @ [Fetch url])
             else fetchWithRetry_loop fetch url retries (Suc i)
                    (evs @ [Fetch url, Warn ((2 ^ i * 1000) div 1000), Timeout (2 ^ i * 1000)]))
      else (Inr JUndefined, evs))"
  by pat_completeness auto
termination
  by (relation "measure (\<lambda>(fetch, url, retries, i, evs). nat (retries - int i))") auto

definition fetchWithRetry :: "network \<Rightarrow> string \<Rightarrow> int \<Rightarrow> (error + jsval) \<times> event list" where
  "fetchWithRetry fetch url retries = fetchWithRetry_loop fetch url retries 0 []"

text \<open>The number of network requests in a run.\<close>

fun is_Fetch :: "event \<Rightarrow> bool" where
  "is_Fetch (Fetch u) = True"
| "is_Fetch (Warn n) = False"
| "is_Fetch (Timeout n) = False"

definition attempts :: "event list \<Rightarrow> nat" where
  "attempts evs = length (filter is_Fetch evs)"

text \<open>Two networks to run the helper on: one that recovers at its third call, one that is down.\<close>

definition ok_response :: "jsval \<Rightarrow> response" where
  "ok_response v = \<lparr>ok = True, status = 200, json = Inr v\<rparr>"

definition flaky_network :: network where
  "flaky_network url i =
     (if i = 0 then Inl (NetworkError ''Failed to fetch'')
      else if i = 1 then Inr \<lparr>ok = False, status = 503, json = Inl SyntaxError\<rparr>
      else Inr (ok_response (JArr [JStr ''Alabama''])))"

definition dead_network :: network where
  "dead_network url i = Inr \<lparr>ok = False, status = 500 + i, json = Inl SyntaxError\<rparr>"

section \<open>What the runtime provides\<close>

text \<open>
  \<^verbatim>\<open>JSON.stringify\<close>, \<^verbatim>\<open>JSON.parse\<close>, \<^verbatim>\<open>Array.prototype.sort\<close> (with
  the default comparator) and \<^verbatim>\<open>encodeURIComponent\<close> belong to the browser, not to
  the repository: the program is modelled over any such four functions. The first two can
  throw.
\<close>

record platform =
  JSON_stringify :: "jsval \<Rightarrow> error + string"
  JSON_parse :: "string \<Rightarrow> error + jsval"
  Array_sort :: "jsval list \<Rightarrow> jsval list"
  encodeURIComponent :: "string \<Rightarrow> string"

text \<open>Sequencing of steps that can throw: the first error ends the block.\<close>

definition and_then :: "error + 'a \<Rightarrow> ('a \<Rightarrow> error + 'b) \<Rightarrow> error + 'b" where
  "and_then r f = (case r of Inl e \<Rightarrow> Inl e | Inr v \<Rightarrow> f v)"

text \<open>Truthiness, and \<^verbatim>\<open>a || b\<close>.\<close>

fun truthy :: "jsval \<Rightarrow> bool" where
  "truthy JUndefined = False"
| "truthy JNull = False"
| "truthy (JBool b) = b"
| "truthy (JNum n) = (n \<noteq> 0)"
| "truthy (JStr s) = (s \<noteq> [])"
| "truthy (JArr xs) = True"
| "truthy (JObj kvs) = True"

definition or_else :: "jsval \<Rightarrow> jsval \<Rightarrow> jsval" where
  "or_else a b = (if truthy a then a else b)"

text \<open>
  \<^verbatim>\<open>x[k]\<close> for the property names the program reads (\<^verbatim>\<open>state\<close>,
  \<^verbatim>\<open>Hospital Name\<close> and the like): a \<^verbatim>\<open>TypeError\<close> on \<^verbatim>\<open>null\<close> and
  \<^verbatim>\<open>undefined\<close>, the own property of an object, and \<^verbatim>\<open>undefined\<close>
  otherwise, no primitive or array having a property of such a name.
\<close>

fun get_prop :: "jsval \<Rightarrow> string \<Rightarrow> error + jsval" where
  "get_prop JUndefined k = Inl TypeError"
| "get_prop JNull k = Inl TypeError"
| "get_prop (JObj kvs) k = Inr (case map_of kvs k of None \<Rightarrow> JUndefined | Some v \<Rightarrow> v)"
| "get_prop (JBool b) k = Inr JUndefined"
| "get_prop (JNum n) k = Inr JUndefined"
| "get_prop (JStr s) k = Inr JUndefined"
| "get_prop (JArr xs) k = Inr JUndefined"

text \<open>
  \<^verbatim>\<open>data.map(f)\<close> and \<^verbatim>\<open>data.filter(f)\<close> with callbacks that can throw. On
  anything but an array the method does not exist and the call is a \<^verbatim>\<open>TypeError\<close>.
\<close>

fun map_items :: "('a \<Rightarrow> error + 'b) \<Rightarrow> 'a list \<Rightarrow> error + 'b list" where
  "map_items f [] = Inr []"
| "map_items f (x # xs) =
     (case f x of
        Inl e \<Rightarrow> Inl e
      | Inr y \<Rightarrow> (case map_items f xs of Inl e \<Rightarrow> Inl e | Inr ys \<Rightarrow> Inr (y # ys)))"

fun filter_items :: "('a \<Rightarrow> error + bool) \<Rightarrow> 'a list \<Rightarrow> error + 'a list" where
  "filter_items f [] = Inr []"
| "filter_items f (x # xs) =
     (case f x of
        Inl e \<Rightarrow> Inl e
      | Inr b \<Rightarrow>
          (case filter_items f xs of
             Inl e \<Rightarrow> Inl e
           | Inr ys \<Rightarrow> Inr (if b then x # ys else ys)))"

definition Array_map :: "(jsval \<Rightarrow> error + jsval) \<Rightarrow> jsval \<Rightarrow> error + jsval list" where
  "Array_map f data = (case data of JArr xs \<Rightarrow> map_items f xs | _ \<Rightarrow> Inl TypeError)"

section \<open>The local booking store\<close>

text \<open>
  \<^verbatim>\<open>localStorage\<close>: the slots, whether the page may touch the storage at all (a
  \<^verbatim>\<open>SecurityError\<close> otherwise), and which writes the browser accepts (a
  \<^verbatim>\<open>QuotaExceededError\<close> otherwise).
\<close>

record storage =
  items :: "string \<rightharpoonup> string"
  accessible :: bool
  accepts :: "string \<Rightarrow> string \<Rightarrow> bool"

definition getItem :: "storage \<Rightarrow> string \<Rightarrow> error + string option" where
  "getItem store k = (if accessible store then Inr (items store k) else Inl SecurityError)"

definition setItem :: "storage \<Rightarrow> string \<Rightarrow> string \<Rightarrow> error + storage" where
  "setItem store k v =
     (if \<not> accessible store then Inl SecurityError
      else if \<not> accepts store k v then Inl QuotaExceededError
      else Inr (store\<lparr>items := (items store)(k \<mapsto> v)\<rparr>))"

text \<open>
  \<^verbatim>\<open>
  const getBookings = () => {
    try {
      const stored = localStorage.getItem('bookings');
      return stored ? JSON.parse(stored) : [];
    } catch (error) {
      console.error("Error retrieving bookings:", error);
      return [];
    }
  };
  \<close>
  \<open>getBookings_try\<close> is the \<^verbatim>\<open>try\<close> block; \<^verbatim>\<open>stored\<close> is \<^verbatim>\<open>null\<close>
  (\<open>None\<close>) or a string, and the empty string is falsy. \<^verbatim>\<open>console.error\<close> only
  reports and is left out, here and below.
\<close>

definition getBookings_try :: "platform \<Rightarrow> storage \<Rightarrow> error + jsval" where
  "getBookings_try P store =
     and_then (getItem store ''bookings'') (\<lambda>stored.
       case stored of
         None \<Rightarrow> Inr (JArr [])
       | Some str \<Rightarrow> if str \<noteq> [] then JSON_parse P str else Inr (JArr []))"

definition getBookings :: "platform \<Rightarrow> storage \<Rightarrow> error + jsval" where
  "getBookings P store =
     (case getBookings_try P store of Inl e \<Rightarrow> Inr (JArr []) | Inr v \<Rightarrow> Inr v)"

text \<open>
  \<^verbatim>\<open>
  const saveBookings = (bookings) => {
    try {
      localStorage.setItem('bookings', JSON.stringify(bookings));
    } catch (error) {
      console.error("Error saving bookings:", error);
    }
  };
  \<close>
  Both callers pass an array. The result is the storage afterwards.
\<close>

definition saveBookings_try :: "platform \<Rightarrow> jsval list \<Rightarrow> storage \<Rightarrow> error + storage" where
  "saveBookings_try P bookings store =
     and_then (JSON_stringify P (JArr bookings)) (\<lambda>str. setItem store ''bookings'' str)"

definition saveBookings :: "platform \<Rightarrow> jsval list \<Rightarrow> storage \<Rightarrow> error + storage" where
  "saveBookings P bookings store =
     (case saveBookings_try P bookings store of Inl e \<Rightarrow> Inr store | Inr store' \<Rightarrow> Inr store')"

section \<open>The search state controller\<close>

text \<open>
  The component state of \<^verbatim>\<open>App\<close> that the controller and the booking handlers
  read and write. The two selections are \<^verbatim>\<open>null\<close> or a string: the dropdown passes
  only strings to \<^verbatim>\<open>onSelect\<close>. \<^verbatim>\<open>bookings\<close> starts as whatever
  \<^verbatim>\<open>getBookings\<close> returned. The route, the open modal and the mobile menu play no
  part here.
\<close>

record loading =
  loading_states :: bool
  loading_cities :: bool
  loading_hospitals :: bool

record app_state =
  states :: "jsval list"
  cities :: "jsval list"
  selectedState :: "string option"
  selectedCity :: "string option"
  searchResults :: "jsval list"
  bookings :: jsval
  isLoading :: loading

definition API_BASE_URL :: string where
  "API_BASE_URL = ''https://meddata-backend.onrender.com''"

text \<open>\<^verbatim>\<open>!selected\<close> is false for a string that is not empty only.\<close>

fun selected :: "string option \<Rightarrow> bool" where
  "selected None = False"
| "selected (Some s) = (s \<noteq> [])"

text \<open>The string a selection is converted to where a string is expected.\<close>

fun text_of :: "string option \<Rightarrow> string" where
  "text_of None = ''null''"
| "text_of (Some s) = s"

text \<open>
  An \<^verbatim>\<open>async\<close> stage runs in two parts: from its call to its \<^verbatim>\<open>await\<close> of
  \<^verbatim>\<open>fetchWithRetry\<close> (\<open>_start\<close>, which gives the URL requested), and from the moment
  that promise settles to the end (\<open>_settle\<close>, which takes how it settled). State setters
  act on the state of the moment they are called in, so the second part takes the state of
  that moment.

  \<^verbatim>\<open>
  const fetchStates = async () => {
    setIsLoading(prev => ({ ...prev, states: true }));
    try {
      const data = await fetchWithRetry(`${API_BASE_URL}/states`);
      setStates(data.map(item => item.state).sort());
    } catch (e) {
      console.error("Failed to fetch states:", e);
    } finally {
      setIsLoading(prev => ({ ...prev, states: false }));
    }
  };
  \<close>
\<close>

definition fetchStates_start :: "app_state \<Rightarrow> app_state \<times> string" where
  "fetchStates_start st =
     (st\<lparr>isLoading := (isLoading st)\<lparr>loading_states := True\<rparr>\<rparr>, API_BASE_URL @ ''/states'')"

definition fetchStates_settle :: "platform \<Rightarrow> error + jsval \<Rightarrow> app_state \<Rightarrow> app_state" where
  "fetchStates_settle P outcome st =
     (let st1 =
        (case and_then outcome (Array_map (\<lambda>item. get_prop item ''state'')) of
           Inr xs \<Rightarrow> st\<lparr>states := Array_sort P xs\<rparr>
         | Inl e \<Rightarrow> st)
      in st1\<lparr>isLoading := (isLoading st1)\<lparr>loading_states := False\<rparr>\<rparr>)"

text \<open>
  \<^verbatim>\<open>
  useEffect(() => {
    if (!selectedState) {
      setCities([]);
      setSelectedCity(null);
      setSearchResults([]);
      return;
    }
    const fetchCities = async () => {
      setIsLoading(prev => ({ ...prev, cities: true }));
      setCities([]);
      setSelectedCity(null);
      setSearchResults([]);
      try {
        const url = `${API_BASE_URL}/cities/${encodeURIComponent(selectedState)}`;
        const data = await fetchWithRetry(url);
        setCities(data.sort());
      } catch (e) {
        console.error("Failed to fetch cities:", e);
      } finally {
        setIsLoading(prev => ({ ...prev, cities: false }));
      }
    };
    fetchCities();
  }, [selectedState]);
  \<close>
  \<open>selectedState_effect\<close> is the effect up to the \<^verbatim>\<open>await\<close>: the state it leaves
  and the request it has made, if any.
\<close>

definition fetchCities_start :: "platform \<Rightarrow> string \<Rightarrow> app_state \<Rightarrow> app_state \<times> string" where
  "fetchCities_start P s st =
     (st\<lparr>isLoading := (isLoading st)\<lparr>loading_cities := True\<rparr>,
         cities := [], selectedCity := None, searchResults := []\<rparr>,
      API_BASE_URL @ ''/cities/'' @ encodeURIComponent P s)"

definition selectedState_effect :: "platform \<Rightarrow> app_state \<Rightarrow> app_state \<times> string option" where
  "selectedState_effect P st =
     (case selectedState st of
        None \<Rightarrow> (st\<lparr>cities := [], selectedCity := None, searchResults := []\<rparr>, None)
      | Some s \<Rightarrow>
          if s = [] then (st\<lparr>cities := [], selectedCity := None, searchResults := []\<rparr>, None)
          else (case fetchCities_start P s st of (st', url) \<Rightarrow> (st', Some url)))"

definition Array_sort_of :: "platform \<Rightarrow> jsval \<Rightarrow> error + jsval list" where
  "Array_sort_of P data = (case data of JArr xs \<Rightarrow> Inr (Array_sort P xs) | _ \<Rightarrow> Inl TypeError)"

definition fetchCities_settle :: "platform \<Rightarrow> error + jsval \<Rightarrow> app_state \<Rightarrow> app_state" where
  "fetchCities_settle P outcome st =
     (let st1 =
        (case and_then outcome (Array_sort_of P) of
           Inr xs \<Rightarrow> st\<lparr>cities := xs\<rparr>
         | Inl e \<Rightarrow> st)
      in st1\<lparr>isLoading := (isLoading st1)\<lparr>loading_cities := False\<rparr>\<rparr>)"

text \<open>
  \<^verbatim>\<open>
  const handleSearch = useCallback(async () => {
    if (!selectedState || !selectedCity) return;
    setIsLoading(prev => ({ ...prev, hospitals: true }));
    setSearchResults([]);
    try {
      const url = `${API_BASE_URL}/data?state=${encodeURIComponent(selectedState)}&city=${encodeURIComponent(selectedCity)}`;
      const data = await fetchWithRetry(url);
      const filteredData = data.map(hospital => ({
        'Hospital Name': hospital['Hospital Name'] || '',
        'City': hospital['City'] || '',
        'State': hospital['State'] || '',
        'Hospital Type': hospital['Hospital Type'] || '',
        'Hospital overall rating': hospital['Hospital overall rating'] || '',
      })).filter(h => h['Hospital Name']);
      setSearchResults(filteredData);
    } catch (e) {
      console.error("Failed to fetch hospitals:", e);
      setSearchResults([]);
    } finally {
      setIsLoading(prev => ({ ...prev, hospitals: false }));
    }
  }, [selectedState, selectedCity]);
  \<close>
\<close>

definition projection :: "jsval \<Rightarrow> error + jsval" where
  "projection hospital =
     and_then (get_prop hospital ''Hospital Name'') (\<lambda>name.
     and_then (get_prop hospital ''City'') (\<lambda>city.
     and_then (get_prop hospital ''State'') (\<lambda>state.
     and_then (get_prop hospital ''Hospital Type'') (\<lambda>type.
     and_then (get_prop hospital ''Hospital overall rating'') (\<lambda>rating.
       Inr (JObj
         [(''Hospital Name'', or_else name (JStr [])),
          (''City'', or_else city (JStr [])),
          (''State'', or_else state (JStr [])),
          (''Hospital Type'', or_else type (JStr [])),
          (''Hospital overall rating'', or_else rating (JStr []))]))))))"

definition has_name :: "jsval \<Rightarrow> error + bool" where
  "has_name h = and_then (get_prop h ''Hospital Name'') (\<lambda>name. Inr (truthy name))"

definition filteredData :: "jsval \<Rightarrow> error + jsval list" where
  "filteredData data = and_then (Array_map projection data) (filter_items has_name)"

definition handleSearch_start :: "platform \<Rightarrow> app_state \<Rightarrow> app_state \<times> string option" where
  "handleSearch_start P st =
     (if \<not> selected (selectedState st) \<or> \<not> selected (selectedCity st) then (st, None)
      else
        (st\<lparr>isLoading := (isLoading st)\<lparr>loading_hospitals := True\<rparr>, searchResults := []\<rparr>,
         Some (API_BASE_URL @ ''/data?state='' @ encodeURIComponent P (text_of (selectedState st))
                 @ ''&city='' @ encodeURIComponent P (text_of (selectedCity st)))))"

definition handleSearch_settle :: "error + jsval \<Rightarrow> app_state \<Rightarrow> app_state" where
  "handleSearch_settle outcome st =
     (let st1 =
        (case and_then outcome filteredData of
           Inr xs \<Rightarrow> st\<lparr>searchResults := xs\<rparr>
         | Inl e \<Rightarrow> st\<lparr>searchResults := []\<rparr>)
      in st1\<lparr>isLoading := (isLoading st1)\<lparr>loading_hospitals := False\<rparr>\<rparr>)"

text \<open>
  A stage run from start to end with nothing in between, over a network: the request is
  made with the default budget of 3.
\<close>

definition fetchStates :: "platform \<Rightarrow> network \<Rightarrow> app_state \<Rightarrow> app_state \<times> event list" where
  "fetchStates P fetch st =
     (case fetchStates_start st of (st1, url) \<Rightarrow>
        case fetchWithRetry fetch url 3 of (outcome, evs) \<Rightarrow>
          (fetchStates_settle P outcome st1, evs))"

definition fetchCities :: "platform \<Rightarrow> network \<Rightarrow> string \<Rightarrow> app_state \<Rightarrow> app_state \<times> event list" where
  "fetchCities P fetch s st =
     (case fetchCities_start P s st of (st1, url) \<Rightarrow>
        case fetchWithRetry fetch url 3 of (outcome, evs) \<Rightarrow>
          (fetchCities_settle P outcome st1, evs))"

definition handleSearch :: "platform \<Rightarrow> network \<Rightarrow> app_state \<Rightarrow> app_state \<times> event list" where
  "handleSearch P fetch st =
     (case handleSearch_start P st of
        (st1, None) \<Rightarrow> (st1, [])
      | (st1, Some url) \<Rightarrow>
          (case fetchWithRetry fetch url 3 of (outcome, evs) \<Rightarrow>
             (handleSearch_settle outcome st1, evs)))"

section \<open>Booking and cancelling\<close>

text \<open>
  \<^verbatim>\<open>
  const handleBook = (newBooking) => {
    const updatedBookings = [...bookings, newBooking];
    setBookings(updatedBookings);
    saveBookings(updatedBookings);
  };
  const handleCancelBooking = (index) => {
    const updatedBookings = bookings.filter((_, i) => i !== index);
    setBookings(updatedBookings);
    saveBookings(updatedBookings);
  };
  \<close>
  \<^verbatim>\<open>[...x]\<close> takes the elements of an array and the characters of a string, and is a
  \<^verbatim>\<open>TypeError\<close> on any other value of the model; \<^verbatim>\<open>x.filter\<close> exists on
  arrays only. Both handlers work on the component state and the storage.
\<close>

definition spread :: "jsval \<Rightarrow> error + jsval list" where
  "spread x =
     (case x of
        JArr xs \<Rightarrow> Inr xs
      | JStr s \<Rightarrow> Inr (map (\<lambda>c. JStr [c]) s)
      | _ \<Rightarrow> Inl TypeError)"

definition without_index :: "nat \<Rightarrow> 'a list \<Rightarrow> 'a list" where
  "without_index index xs = map snd (filter (\<lambda>(i, x). i \<noteq> index) (enumerate 0 xs))"

definition handleBook ::
  "platform \<Rightarrow> jsval \<Rightarrow> app_state \<times> storage \<Rightarrow> error + app_state \<times> storage" where
  "handleBook P newBooking = (\<lambda>(st, store).
     and_then (spread (bookings st)) (\<lambda>old.
       let updatedBookings = old @ [newBooking] in
       and_then (saveBookings P updatedBookings store) (\<lambda>store'.
         Inr (st\<lparr>bookings := JArr updatedBookings\<rparr>, store'))))"

definition handleCancelBooking ::
  "platform \<Rightarrow> nat \<Rightarrow> app_state \<times> storage \<Rightarrow> error + app_state \<times> storage" where
  "handleCancelBooking P index = (\<lambda>(st, store).
     case bookings st of
       JArr xs \<Rightarrow>
         let updatedBookings = without_index index xs in
         and_then (saveBookings P updatedBookings store) (\<lambda>store'.
           Inr (st\<lparr>bookings := JArr updatedBookings\<rparr>, store'))
     | _ \<Rightarrow> Inl TypeError)"

section \<open>The page as a transition system\<close>

text \<open>
  The page runs on one thread: a user action or the settling of a request runs to its end
  (or to its next \<^verbatim>\<open>await\<close>) before the next one starts. The system is the component
  state and the requests made and not yet settled, oldest first, each with the stage that
  awaits it. Selecting a state sets \<^verbatim>\<open>selectedState\<close>; when the value differs
  from the one before, the component renders again and the effect on
  \<^verbatim>\<open>[selectedState]\<close> runs. Selecting a city is \<^verbatim>\<open>setSelectedCity\<close> and
  nothing else. The search button is disabled while \<^verbatim>\<open>isLoading.hospitals\<close> holds.
  \<open>Settle k outcome\<close> is the request at position \<open>k\<close> settling with what
  \<^verbatim>\<open>fetchWithRetry\<close> gave.
\<close>

datatype stage = StatesStage | CitiesStage | HospitalsStage

record system =
  app :: app_state
  inflight :: "(stage \<times> string) list"

datatype action =
    SelectState "string option"
  | SelectCity "string option"
  | Search
  | Settle nat "error + jsval"

fun settle_stage :: "platform \<Rightarrow> stage \<Rightarrow> error + jsval \<Rightarrow> app_state \<Rightarrow> app_state" where
  "settle_stage P StatesStage outcome st = fetchStates_settle P outcome st"
| "settle_stage P CitiesStage outcome st = fetchCities_settle P outcome st"
| "settle_stage P HospitalsStage outcome st = handleSearch_settle outcome st"

fun requested :: "stage \<Rightarrow> string option \<Rightarrow> (stage \<times> string) list" where
  "requested stg None = []"
| "requested stg (Some url) = [(stg, url)]"

fun step :: "platform \<Rightarrow> action \<Rightarrow> system \<Rightarrow> system" where
  "step P (SelectState s) sys =
     (if s = selectedState (app sys) then sys
      else
        (case selectedState_effect P ((app sys)\<lparr>selectedState := s\<rparr>) of
           (st', req) \<Rightarrow>
             sys\<lparr>app := st', inflight := inflight sys @ requested CitiesStage req\<rparr>))"
| "step P (SelectCity c) sys = sys\<lparr>app := (app sys)\<lparr>selectedCity := c\<rparr>\<rparr>"
| "step P Search sys =
     (if loading_hospitals (isLoading (app sys)) then sys
      else
        (case handleSearch_start P (app sys) of
           (st', req) \<Rightarrow>
             sys\<lparr>app := st', inflight := inflight sys @ requested HospitalsStage req\<rparr>))"
| "step P (Settle k outcome) sys =
     (if k < length (inflight sys) then
        sys\<lparr>app := settle_stage P (fst (inflight sys ! k)) outcome (app sys),
            inflight := take k (inflight sys) @ drop (Suc k) (inflight sys)\<rparr>
      else sys)"

fun run :: "platform \<Rightarrow> action list \<Rightarrow> system \<Rightarrow> system" where
  "run P [] sys = sys"
| "run P (a # as) sys = run P as (step P a sys)"

text \<open>
  The first render: the initial values of the \<^verbatim>\<open>useState\<close> calls, then the
  effects in their order, \<^verbatim>\<open>fetchStates\<close> and the effect on
  \<^verbatim>\<open>[selectedState]\<close>.
\<close>

definition initial_app :: "jsval \<Rightarrow> app_state" where
  "initial_app stored =
     \<lparr>states = [], cities = [], selectedState = None, selectedCity = None,
      searchResults = [], bookings = stored,
      isLoading = \<lparr>loading_states = False, loading_cities = False, loading_hospitals = False\<rparr>\<rparr>"

definition mount :: "platform \<Rightarrow> storage \<Rightarrow> error + system" where
  "mount P store =
     and_then (getBookings P store) (\<lambda>stored.
       case fetchStates_start (initial_app stored) of (st1, url) \<Rightarrow>
         case selectedState_effect P st1 of (st2, req) \<Rightarrow>
           Inr \<lparr>app = st2, inflight = (StatesStage, url) # requested CitiesStage req\<rparr>)"

section \<open>The result set in the words of the specification\<close>

text \<open>
  The search results as the specification words them, for an array of hospital objects
  (each the list of its properties): every record mapped to its five fields, a missing
  field replaced by the empty string, the records whose name is missing or empty removed.
\<close>

definition spec_field :: "(string \<times> jsval) list \<Rightarrow> string \<Rightarrow> jsval" where
  "spec_field r k = (case map_of r k of None \<Rightarrow> JStr [] | Some v \<Rightarrow> v)"

definition spec_projection :: "(string \<times> jsval) list \<Rightarrow> jsval" where
  "spec_projection r =
     JObj [(''Hospital Name'', spec_field r ''Hospital Name''),
           (''City'', spec_field r ''City''),
           (''State'', spec_field r ''State''),
           (''Hospital Type'', spec_field r ''Hospital Type''),
           (''Hospital overall rating'', spec_field r ''Hospital overall rating'')]"

definition spec_name_missing_or_empty :: "(string \<times> jsval) list \<Rightarrow> bool" where
  "spec_name_missing_or_empty r =
     (map_of r ''Hospital Name'' = None \<or> map_of r ''Hospital Name'' = Some (JStr []))"

definition spec_results :: "(string \<times> jsval) list list \<Rightarrow> jsval list" where
  "spec_results rs = map spec_projection (filter (\<lambda>r. \<not> spec_name_missing_or_empty r) rs)"

text \<open>
  The same with falsiness in the place of absence, which is what \<^verbatim>\<open>||\<close> and the
  filter test: \<open>field r k\<close> is \<^verbatim>\<open>r[k]\<close>.
\<close>

definition field :: "(string \<times> jsval) list \<Rightarrow> string \<Rightarrow> jsval" where
  "field r k = (case map_of r k of None \<Rightarrow> JUndefined | Some v \<Rightarrow> v)"

definition five_fields :: "(string \<times> jsval) list \<Rightarrow> jsval" where
  "five_fields r =
     JObj [(''Hospital Name'', or_else (field r ''Hospital Name'') (JStr [])),
           (''City'', or_else (field r ''City'') (JStr [])),
           (''State'', or_else (field r ''State'') (JStr [])),
           (''Hospital Type'', or_else (field r ''Hospital Type'') (JStr [])),
           (''Hospital overall rating'', or_else (field r ''Hospital overall rating'') (JStr []))]"

definition named :: "(string \<times> jsval) list \<Rightarrow> bool" where
  "named r = truthy (field r ''Hospital Name'')"

text \<open>A record is plain when each of the five fields it has is a string or is truthy.\<close>

definition plain_field :: "(string \<times> jsval) list \<Rightarrow> string \<Rightarrow> bool" where
  "plain_field r k = (case map_of r k of None \<Rightarrow> True | Some v \<Rightarrow> truthy v \<or> v = JStr [])"

definition plain :: "(string \<times> jsval) list \<Rightarrow> bool" where
  "plain r =
     (plain_field r ''Hospital Name'' \<and> plain_field r ''City'' \<and> plain_field r ''State'' \<and>
      plain_field r ''Hospital Type'' \<and> plain_field r ''Hospital overall rating'')"

section \<open>A browser to run the program on\<close>

text \<open>
  The default sort of arrays: elements compared as strings, \<^verbatim>\<open>undefined\<close> last.
\<close>

definition digit_char :: "nat \<Rightarrow> char" where
  "digit_char n = char_of (48 + n)"

fun nat_to_string :: "nat \<Rightarrow> string" where
  "nat_to_string n =
     (if n < 10 then [digit_char n] else nat_to_string (n div 10) @ [digit_char (n mod 10)])"

definition int_to_string :: "int \<Rightarrow> string" where
  "int_to_string i =
     (if i < 0 then CHR ''-'' # nat_to_string (nat (- i)) else nat_to_string (nat i))"

fun join :: "string \<Rightarrow> string list \<Rightarrow> string" where
  "join sep [] = []"
| "join sep [x] = x"
| "join sep (x # y # ys) = x @ sep @ join sep (y # ys)"

fun to_string :: "jsval \<Rightarrow> string" where
  "to_string JUndefined = ''undefined''"
| "to_string JNull = ''null''"
| "to_string (JBool b) = (if b then ''true'' else ''false'')"
| "to_string (JNum n) = int_to_string n"
| "to_string (JStr s) = s"
| "to_string (JArr xs) =
     join '','' (map (\<lambda>x. if x = JUndefined \<or> x = JNull then [] else to_string x) xs)"
| "to_string (JObj kvs) = ''[object Object]''"

definition js_sort :: "jsval list \<Rightarrow> jsval list" where
  "js_sort xs =
     sort_key to_string (filter (\<lambda>x. x \<noteq> JUndefined) xs) @ filter (\<lambda>x. x = JUndefined) xs"

text \<open>Percent-encoding of every byte outside the unreserved set.\<close>

definition hex_char :: "nat \<Rightarrow> char" where
  "hex_char n = (if n < 10 then char_of (48 + n) else char_of (55 + n))"

definition unreserved :: "char \<Rightarrow> bool" where
  "unreserved c =
     (c \<in> set ''ABCDEFGHIJKLMNOPQRSTUVWXYZabcdefghijklmnopqrstuvwxyz0123456789-_.!~*()''
      \<or> c = CHR 0x27)"

definition percent_encode :: "string \<Rightarrow> string" where
  "percent_encode s =
     concat (map (\<lambda>c. if unreserved c then [c]
                       else [CHR ''%'', hex_char (of_char c div 16), hex_char (of_char c mod 16)]) s)"

text \<open>
  JSON on a finite list of documents, each with the value it denotes: enough to save and
  load the bookings below.
\<close>

definition stringify_among :: "(string \<times> jsval) list \<Rightarrow> jsval \<Rightarrow> error + string" where
  "stringify_among docs v =
     (case find (\<lambda>d. snd d = v) docs of Some d \<Rightarrow> Inr (fst d) | None \<Rightarrow> Inl TypeError)"

definition parse_among :: "(string \<times> jsval) list \<Rightarrow> string \<Rightarrow> error + jsval" where
  "parse_among docs str =
     (case map_of docs str of Some v \<Rightarrow> Inr v | None \<Rightarrow> Inl SyntaxError)"

definition a_booking :: jsval where
  "a_booking =
     JObj [(''Hospital Name'', JStr ''Mercy Clinic''),
           (''City'', JStr ''Dothan''),
           (''bookingDate'', JStr ''2026-11-05''),
           (''bookingTime'', JStr ''02:00 PM'')]"

definition booking_document :: string where
  \<open>booking_document =
     ''[{"Hospital Name":"Mercy Clinic","City":"Dothan","bookingDate":"2026-11-05","bookingTime":"02:00 PM"}]''\<close>

definition documents :: "(string \<times> jsval) list" where
  "documents = [(''[]'', JArr []), (booking_document, JArr [a_booking])]"

definition browser :: platform where
  "browser =
     \<lparr>JSON_stringify = stringify_among documents, JSON_parse = parse_among documents,
      Array_sort = js_sort, encodeURIComponent = percent_encode\<rparr>"

definition empty_storage :: storage where
  "empty_storage = \<lparr>items = Map.empty, accessible = True, accepts = (\<lambda>k v. True)\<rparr>"

definition full_storage :: storage where
  "full_storage = \<lparr>items = [''bookings'' \<mapsto> ''[]''], accessible = True, accepts = (\<lambda>k v. False)\<rparr>"

text \<open>A state of the page with one search result on display.\<close>

definition a_hospital :: "(string \<times> jsval) list" where
  "a_hospital =
     [(''Hospital Name'', JStr ''Mercy Clinic''), (''City'', JStr ''Dothan''),
      (''State'', JStr ''Alabama''), (''Hospital Type'', JStr ''Acute Care''),
      (''Hospital overall rating'', JNum 0)]"

definition showing_results :: system where
  "showing_results =
     \<lparr>app = (initial_app (JArr []))
        \<lparr>states := [JStr ''Alabama'', JStr ''Alaska''],
         cities := [JStr ''Dothan'', JStr ''Mobile''],
         selectedState := Some ''Alabama'', selectedCity := Some ''Dothan'',
         searchResults := [five_fields a_hospital]\<rparr>,
      inflight = []\<rparr>"

text \<open>
  Two runs of the page from its first render. In the first the user selects Alabama and
  then Alaska, and the cities of Alaska arrive while the request for those of Alabama is
  still under way. In the second the user searches Dothan, Alabama and selects Alaska
  before the hospitals arrive.
\<close>

definition mounted :: system where
  "mounted =
     \<lparr>app = (initial_app (JArr []))
        \<lparr>isLoading := \<lparr>loading_states = True, loading_cities = False, loading_hospitals = False\<rparr>\<rparr>,
      inflight = [(StatesStage, ''https://meddata-backend.onrender.com/states'')]\<rparr>"

definition states_reply :: jsval where
  "states_reply = JArr [JObj [(''state'', JStr ''Alaska'')], JObj [(''state'', JStr ''Alabama'')]]"

definition stale_cities_pending :: system where
  "stale_cities_pending =
     run browser
       [Settle 0 (Inr states_reply),
        SelectState (Some ''Alabama''),
        SelectState (Some ''Alaska''),
        Settle 1 (Inr (JArr [JStr ''Juneau'', JStr ''Anchorage'']))]
       mounted"

definition stale_search_pending :: system where
  "stale_search_pending =
     run browser
       [Settle 0 (Inr states_reply),
        SelectState (Some ''Alabama''),
        Settle 0 (Inr (JArr [JStr ''Mobile'', JStr ''Dothan''])),
        SelectCity (Some ''Dothan''),
        Search,
        SelectState (Some ''Alaska'')]
       mounted"

text \<open>Two hospital records with string fields only, the second without a name.\<close>

definition two_hospitals :: "(string \<times> jsval) list list" where
  "two_hospitals =
     [[(''Hospital Name'', JStr ''Mercy Clinic''), (''City'', JStr ''Dothan'')],
      [(''City'', JStr ''Mobile''), (''Hospital Type'', JStr ''Acute Care'')]]"

section \<open>The retry helper: attempts and outcome\<close>

declare fetchWithRetry_loop.simps [simp del]

lemma loop_exhausted:
  "\<not> int i < retries \<Longrightarrow> fetchWithRetry_loop fetch url retries i evs = (Inr JUndefined, evs)"
  by (simp add: fetchWithRetry_loop.simps)

lemma loop_success:
  "int i < retries \<Longrightarrow> attempt (fetch url i) = Inr v \<Longrightarrow>
   fetchWithRetry_loop fetch url retries i evs = (Inr v, evs @ [Fetch url])"
  by (simp add: fetchWithRetry_loop.simps)

lemma loop_last_failure:
  "int i = retries - 1 \<Longrightarrow> attempt (fetch url i) = Inl e \<Longrightarrow>
   fetchWithRetry_loop fetch url retries i evs = (Inl e, evs @ [Fetch url])"
  by (simp add: fetchWithRetry_loop.simps)

lemma loop_retry:
  "int i < retries - 1 \<Longrightarrow> attempt (fetch url i) = Inl e \<Longrightarrow>
   fetchWithRetry_loop fetch url retries i evs =
   fetchWithRetry_loop fetch url retries (Suc i)
     (evs @ [Fetch url, Warn (2 ^ i), Timeout (2 ^ i * 1000)])"
  by (subst fetchWithRetry_loop.simps) simp

lemma attempts_append: "attempts (xs @ ys) = attempts xs + attempts ys"
  by (simp add: attempts_def)

text \<open>
  When every call from iteration \<open>i\<close> on fails, the loop runs to the last iteration
  of the budget and throws what that one caught.
\<close>

lemma loop_all_fail:
  "int i < retries \<Longrightarrow>
   (\<forall>j. i \<le> j \<and> int j < retries \<longrightarrow> (\<exists>e. attempt (fetch url j) = Inl e)) \<Longrightarrow>
   \<exists>e evs'. attempt (fetch url (nat (retries - 1))) = Inl e \<and>
     fetchWithRetry_loop fetch url retries i evs = (Inl e, evs') \<and>
     int (attempts evs') = int (attempts evs) + (retries - int i)"
proof (induction fetch url retries i evs rule: fetchWithRetry_loop.induct)
  case (1 fetch url retries i evs)
  from "1.prems" obtain e where e: "attempt (fetch url i) = Inl e" by blast
  show ?case
  proof (cases "int i = retries - 1")
    case True
    then have "nat (retries - 1) = i" by simp
    with True e show ?thesis
      by (auto simp: loop_last_failure attempts_append attempts_def)
  next
    case False
    with "1.prems" have lt: "int i < retries - 1" by simp
    then have "int (Suc i) < retries" by simp
    moreover have "\<forall>j. Suc i \<le> j \<and> int j < retries \<longrightarrow> (\<exists>e. attempt (fetch url j) = Inl e)"
      using "1.prems"(2) by auto
    ultimately obtain e' evs' where
      "attempt (fetch url (nat (retries - 1))) = Inl e'"
      "fetchWithRetry_loop fetch url retries (Suc i)
         (evs @ [Fetch url, Warn ((2 ^ i * 1000) div 1000), Timeout (2 ^ i * 1000)]) = (Inl e', evs')"
      "int (attempts evs') =
         int (attempts (evs @ [Fetch url, Warn ((2 ^ i * 1000) div 1000), Timeout (2 ^ i * 1000)]))
         + (retries - int (Suc i))"
      using "1.IH"[OF "1.prems"(1) e False] by blast
    with e lt show ?thesis
      by (auto simp: loop_retry attempts_append attempts_def)
  qed
qed

lemma fails_twice_then_succeeds:
  assumes "3 \<le> retries"
    and "attempt (fetch url 0) = Inl e0"
    and "attempt (fetch url 1) = Inl e1"
    and "attempt (fetch url 2) = Inr body"
  shows "fetchWithRetry fetch url retries =
     (Inr body, [Fetch url, Warn 1, Timeout 1000, Fetch url, Warn 2, Timeout 2000, Fetch url])"
proof -
  have "fetchWithRetry fetch url retries =
      fetchWithRetry_loop fetch url retries (Suc 0) [Fetch url, Warn 1, Timeout 1000]"
    unfolding fetchWithRetry_def using assms(1,2) by (subst loop_retry[where e = e0]) auto
  also have "\<dots> = fetchWithRetry_loop fetch url retries 2
      [Fetch url, Warn 1, Timeout 1000, Fetch url, Warn 2, Timeout 2000]"
    using assms(1,3) by (subst loop_retry[where e = e1]) (auto simp: numeral_2_eq_2)
  also have "\<dots> =
      (Inr body, [Fetch url, Warn 1, Timeout 1000, Fetch url, Warn 2, Timeout 2000, Fetch url])"
    using assms(1,4) by (subst loop_success[where v = body]) auto
  finally show ?thesis .
qed

lemma attempt_flaky_network:
  "attempt (flaky_network u 0) = Inl (NetworkError ''Failed to fetch'')"
  "attempt (flaky_network u 1) = Inl (HttpError 503)"
  "attempt (flaky_network u 2) = Inr (JArr [JStr ''Alabama''])"
  by (simp_all add: attempt_def flaky_network_def ok_response_def)

lemma attempt_dead_network: "attempt (dead_network u i) = Inl (HttpError (500 + i))"
  by (simp add: attempt_def dead_network_def)

text \<open>
  Claim C1, as the code has it. With a budget of at least 3, a request that fails twice and
  then succeeds is made exactly 3 times, with waits of 1 and 2 seconds in between, and the
  body of the third response is returned. With a budget of at least 1, a request whose
  every attempt fails is made exactly \<open>retries\<close> times, and the error of the last
  attempt is thrown. A failure is a rejected call, a response that is not ok, or a body
  that does not parse.
\<close>

theorem fetchWithRetry_retry_contract:
  "(3 \<le> retries \<and> attempt (fetch url 0) = Inl e0 \<and> attempt (fetch url 1) = Inl e1 \<and>
      attempt (fetch url 2) = Inr body \<longrightarrow>
      fetchWithRetry fetch url retries =
        (Inr body, [Fetch url, Warn 1, Timeout 1000, Fetch url, Warn 2, Timeout 2000, Fetch url]) \<and>
      attempts (snd (fetchWithRetry fetch url retries)) = 3) \<and>
   (1 \<le> retries \<and> (\<forall>i. int i < retries \<longrightarrow> (\<exists>e. attempt (fetch url i) = Inl e)) \<longrightarrow>
      (\<exists>e. attempt (fetch url (nat (retries - 1))) = Inl e \<and>
           fst (fetchWithRetry fetch url retries) = Inl e) \<and>
      int (attempts (snd (fetchWithRetry fetch url retries))) = retries)"
proof (intro conjI impI)
  assume a: "3 \<le> retries \<and> attempt (fetch url 0) = Inl e0 \<and> attempt (fetch url 1) = Inl e1 \<and>
      attempt (fetch url 2) = Inr body"
  then show r: "fetchWithRetry fetch url retries =
        (Inr body, [Fetch url, Warn 1, Timeout 1000, Fetch url, Warn 2, Timeout 2000, Fetch url])"
    using fails_twice_then_succeeds by blast
  show "attempts (snd (fetchWithRetry fetch url retries)) = 3"
    by (simp add: r attempts_def)
next
  assume a: "1 \<le> retries \<and> (\<forall>i. int i < retries \<longrightarrow> (\<exists>e. attempt (fetch url i) = Inl e))"
  then have "int 0 < retries" by simp
  moreover from a have "\<forall>j. 0 \<le> j \<and> int j < retries \<longrightarrow> (\<exists>e. attempt (fetch url j) = Inl e)"
    by blast
  ultimately obtain e evs' where *:
    "attempt (fetch url (nat (retries - 1))) = Inl e"
    "fetchWithRetry_loop fetch url retries 0 [] = (Inl e, evs')"
    "int (attempts evs') = int (attempts []) + (retries - int 0)"
    using loop_all_fail[of 0 retries fetch url "[]"] by blast
  from * show "\<exists>e. attempt (fetch url (nat (retries - 1))) = Inl e \<and>
           fst (fetchWithRetry fetch url retries) = Inl e"
    by (auto simp: fetchWithRetry_def)
  from * show "int (attempts (snd (fetchWithRetry fetch url retries))) = retries"
    by (simp add: fetchWithRetry_def attempts_def)
qed

text \<open>
  The default budget on the two networks: the third response is returned after three
  requests, and the error of the third request is thrown after three requests.
\<close>

theorem fetchWithRetry_retry_contract_witness:
  "fetchWithRetry flaky_network ''/states'' 3 =
     (Inr (JArr [JStr ''Alabama'']),
      [Fetch ''/states'', Warn 1, Timeout 1000, Fetch ''/states'', Warn 2, Timeout 2000,
       Fetch ''/states'']) \<and>
   attempts (snd (fetchWithRetry flaky_network ''/states'' 3)) = 3 \<and>
   fst (fetchWithRetry dead_network ''/states'' 3) = Inl (HttpError 502) \<and>
   attempts (snd (fetchWithRetry dead_network ''/states'' 3)) = 3"
proof -
  have flaky: "3 \<le> (3::int) \<and>
      attempt (flaky_network ''/states'' 0) = Inl (NetworkError ''Failed to fetch'') \<and>
      attempt (flaky_network ''/states'' 1) = Inl (HttpError 503) \<and>
      attempt (flaky_network ''/states'' 2) = Inr (JArr [JStr ''Alabama''])"
    by (simp only: attempt_flaky_network) simp
  have dead: "1 \<le> (3::int) \<and>
      (\<forall>i. int i < 3 \<longrightarrow> (\<exists>e. attempt (dead_network ''/states'' i) = Inl e))"
    by (simp add: attempt_dead_network)
  note recovered =
    fetchWithRetry_retry_contract
      [where retries = 3 and fetch = flaky_network and url = "''/states''",
        THEN conjunct1, THEN mp, OF flaky]
  note gave_up =
    fetchWithRetry_retry_contract
      [where retries = 3 and fetch = dead_network and url = "''/states''",
        THEN conjunct2, THEN mp, OF dead]
  from gave_up have "fst (fetchWithRetry dead_network ''/states'' 3) = Inl (HttpError 502)"
    by (auto simp: attempt_dead_network)
  with recovered gave_up show ?thesis by (simp add: attempts_def)
qed

text \<open>
  With a budget of 2 the request that fails twice and then would succeed is made twice
  only, and the second failure is thrown: the third attempt never happens.
\<close>

theorem fetchWithRetry_budget_two_counterexample:
  "attempt (flaky_network ''/states'' 0) = Inl (NetworkError ''Failed to fetch'') \<and>
   attempt (flaky_network ''/states'' 1) = Inl (HttpError 503) \<and>
   attempt (flaky_network ''/states'' 2) = Inr (JArr [JStr ''Alabama'']) \<and>
   fetchWithRetry flaky_network ''/states'' 2 =
     (Inl (HttpError 503), [Fetch ''/states'', Warn 1, Timeout 1000, Fetch ''/states'']) \<and>
   attempts (snd (fetchWithRetry flaky_network ''/states'' 2)) = 2 \<and>
   \<not> (fst (fetchWithRetry flaky_network ''/states'' 2) = Inr (JArr [JStr ''Alabama'']) \<and>
      attempts (snd (fetchWithRetry flaky_network ''/states'' 2)) = 3)"
proof -
  have "fetchWithRetry flaky_network ''/states'' 2 =
     (Inl (HttpError 503), [Fetch ''/states'', Warn 1, Timeout 1000, Fetch ''/states''])"
    unfolding fetchWithRetry_def
    by (simp add: fetchWithRetry_loop.simps attempt_def flaky_network_def)
  then show ?thesis
    by (simp add: attempt_def flaky_network_def ok_response_def attempts_def)
qed

text \<open>
  Claim C10. With a budget of 0 or less the loop body is never entered: no request is
  made, nothing is thrown, and the promise resolves with \<^verbatim>\<open>undefined\<close>.
\<close>

theorem fetchWithRetry_no_budget:
  "retries \<le> 0 \<Longrightarrow> fetchWithRetry fetch url retries = (Inr JUndefined, [])"
  by (simp add: fetchWithRetry_def loop_exhausted)

theorem fetchWithRetry_no_budget_witness:
  "fetchWithRetry dead_network ''/states'' 0 = (Inr JUndefined, []) \<and>
   fetchWithRetry flaky_network ''/states'' (- 1) = (Inr JUndefined, []) \<and>
   attempts (snd (fetchWithRetry dead_network ''/states'' 0)) = 0"
  using fetchWithRetry_no_budget [of 0 dead_network "''/states''"]
    fetchWithRetry_no_budget [of "- 1" flaky_network "''/states''"]
  by (simp add: attempts_def)

section \<open>The booking store\<close>

lemma saveBookings_total: "\<exists>store'. saveBookings P B store = Inr store'"
  by (simp add: saveBookings_def split: sum.split)

lemma browser_documents:
  "JSON_stringify browser (JArr []) = Inr ''[]''"
  "JSON_parse browser ''[]'' = Inr (JArr [])"
  "JSON_stringify browser (JArr [a_booking]) = Inr (booking_document)"
  "JSON_parse browser (booking_document) = Inr (JArr [a_booking])"
  "booking_document \<noteq> []"
  "JSON_parse browser ''[{'' = Inl SyntaxError"
  by (simp_all add: browser_def stringify_among_def parse_among_def documents_def a_booking_def
      booking_document_def)

text \<open>
  Claim C7. \<^verbatim>\<open>getBookings\<close> never throws. It returns the empty array when the
  storage cannot be read, when the slot is absent, when the slot holds the empty string,
  and when the content of the slot does not parse; otherwise it returns what the content
  parses to.
\<close>

theorem getBookings_never_throws:
  "(\<exists>v. getBookings P store = Inr v) \<and>
   (\<not> accessible store \<longrightarrow> getBookings P store = Inr (JArr [])) \<and>
   (accessible store \<and> items store ''bookings'' = None \<longrightarrow> getBookings P store = Inr (JArr [])) \<and>
   (accessible store \<and> items store ''bookings'' = Some [] \<longrightarrow> getBookings P store = Inr (JArr [])) \<and>
   (\<forall>str e. accessible store \<and> items store ''bookings'' = Some str \<and> str \<noteq> [] \<and>
       JSON_parse P str = Inl e \<longrightarrow> getBookings P store = Inr (JArr [])) \<and>
   (\<forall>str v. accessible store \<and> items store ''bookings'' = Some str \<and> str \<noteq> [] \<and>
       JSON_parse P str = Inr v \<longrightarrow> getBookings P store = Inr v)"
  by (simp add: getBookings_def getBookings_try_def getItem_def and_then_def split: sum.split)

text \<open>
  The five cases on storages of the browser: an empty one, one that may not be read, a slot
  holding the empty string, a slot holding text that is not JSON, and a slot holding the
  text of one booking.
\<close>

theorem getBookings_never_throws_witness:
  "getBookings browser empty_storage = Inr (JArr []) \<and>
   getBookings browser (empty_storage\<lparr>accessible := False\<rparr>) = Inr (JArr []) \<and>
   getBookings browser (empty_storage\<lparr>items := [''bookings'' \<mapsto> []]\<rparr>) = Inr (JArr []) \<and>
   JSON_parse browser ''[{'' = Inl SyntaxError \<and>
   getBookings browser (empty_storage\<lparr>items := [''bookings'' \<mapsto> ''[{'']\<rparr>) = Inr (JArr []) \<and>
   getBookings browser
     (empty_storage\<lparr>items := [''bookings'' \<mapsto> booking_document]\<rparr>) = Inr (JArr [a_booking])"
  using getBookings_never_throws [of browser empty_storage]
    getBookings_never_throws [of browser "empty_storage\<lparr>accessible := False\<rparr>"]
    getBookings_never_throws [of browser "empty_storage\<lparr>items := [''bookings'' \<mapsto> []]\<rparr>"]
    getBookings_never_throws [of browser "empty_storage\<lparr>items := [''bookings'' \<mapsto> ''[{'']\<rparr>"]
    getBookings_never_throws
      [of browser "empty_storage\<lparr>items := [''bookings'' \<mapsto> booking_document]\<rparr>"]
    browser_documents
  by (simp add: empty_storage_def)

text \<open>
  Claim C2, as the code has it. When \<^verbatim>\<open>JSON.stringify\<close> turns the booking array
  \<open>B\<close> into a text that is not empty and that \<^verbatim>\<open>JSON.parse\<close> reads back as
  \<open>B\<close>, and the browser accepts the write of that text to the slot, then
  \<^verbatim>\<open>saveBookings(B)\<close> followed by \<^verbatim>\<open>getBookings()\<close> returns \<open>B\<close>.
\<close>

theorem save_then_load:
  assumes "JSON_stringify P (JArr B) = Inr str" and "str \<noteq> []"
    and "JSON_parse P str = Inr (JArr B)"
    and "accessible store" and "accepts store ''bookings'' str"
  shows "and_then (saveBookings P B store) (getBookings P) = Inr (JArr B)"
  using assms
  by (simp add: saveBookings_def saveBookings_try_def setItem_def getBookings_def
      getBookings_try_def getItem_def and_then_def)

theorem save_then_load_witness:
  "JSON_stringify browser (JArr [a_booking]) = Inr (booking_document) \<and>
   JSON_parse browser (booking_document) = Inr (JArr [a_booking]) \<and>
   accessible empty_storage \<and> accepts empty_storage ''bookings'' (booking_document) \<and>
   and_then (saveBookings browser [a_booking] empty_storage) (getBookings browser) =
     Inr (JArr [a_booking])"
proof -
  have "accessible empty_storage" "accepts empty_storage ''bookings'' (booking_document)"
    by (simp_all add: empty_storage_def)
  then show ?thesis
    using save_then_load [of browser "[a_booking]" "booking_document" empty_storage]
      browser_documents
    by simp
qed

text \<open>
  A booking array that serializes and parses back, saved to a storage that accepts no
  write: the quota error is swallowed, and loading returns the old content of the slot.
\<close>

theorem save_to_full_storage_counterexample:
  "JSON_stringify browser (JArr [a_booking]) = Inr (booking_document) \<and>
   JSON_parse browser (booking_document) = Inr (JArr [a_booking]) \<and>
   saveBookings browser [a_booking] full_storage = Inr full_storage \<and>
   and_then (saveBookings browser [a_booking] full_storage) (getBookings browser) = Inr (JArr []) \<and>
   and_then (saveBookings browser [a_booking] full_storage) (getBookings browser) \<noteq>
     Inr (JArr [a_booking])"
proof -
  have s: "saveBookings browser [a_booking] full_storage = Inr full_storage"
    by (simp add: saveBookings_def saveBookings_try_def setItem_def and_then_def
        browser_documents full_storage_def)
  have "getBookings browser full_storage = Inr (JArr [])"
    by (simp add: getBookings_def getBookings_try_def getItem_def and_then_def
        browser_documents full_storage_def)
  with s show ?thesis by (simp add: and_then_def browser_documents)
qed

section \<open>Booking and cancelling\<close>

lemma without_index_length: "without_index (length xs) (xs @ [x]) = xs"
proof -
  have "filter (\<lambda>(i, y). i \<noteq> length xs) (enumerate 0 (xs @ [x])) = enumerate 0 xs"
    by (auto simp: enumerate_append_eq filter_id_conv in_set_enumerate_eq)
  then show ?thesis by (simp add: without_index_def)
qed

text \<open>Cancelling removes the element at the index and nothing else.\<close>

lemma without_index_eq: "without_index i xs = take i xs @ drop (Suc i) xs"
proof (induction xs arbitrary: i rule: rev_induct)
  case Nil
  then show ?case by (simp add: without_index_def)
next
  case (snoc x xs)
  show ?case
  proof (cases "i = length xs")
    case True
    then show ?thesis using without_index_length[of xs x] by simp
  next
    case False
    have "without_index i (xs @ [x]) = without_index i xs @ [x]"
      using False by (simp add: without_index_def enumerate_append_eq)
    with snoc False show ?thesis by (cases "i < length xs") auto
  qed
qed

text \<open>
  Claim C6. From a state whose booking list is \<open>B\<close>, \<^verbatim>\<open>handleBook(b)\<close> gives
  the list \<open>B @ [b]\<close>, and \<^verbatim>\<open>handleCancelBooking\<close> at index \<open>length B\<close> then
  gives back the state before the booking: the same list, in the same order.
\<close>

theorem book_then_cancel:
  assumes "bookings st = JArr B"
  shows "\<exists>store1 store2.
     handleBook P b (st, store) = Inr (st\<lparr>bookings := JArr (B @ [b])\<rparr>, store1) \<and>
     handleCancelBooking P (length B) (st\<lparr>bookings := JArr (B @ [b])\<rparr>, store1) = Inr (st, store2) \<and>
     and_then (handleBook P b (st, store)) (handleCancelBooking P (length B)) = Inr (st, store2)"
proof -
  obtain store1 where s1: "saveBookings P (B @ [b]) store = Inr store1"
    using saveBookings_total by blast
  obtain store2 where s2: "saveBookings P B store1 = Inr store2"
    using saveBookings_total by blast
  have booked: "handleBook P b (st, store) = Inr (st\<lparr>bookings := JArr (B @ [b])\<rparr>, store1)"
    using assms s1 by (simp add: handleBook_def spread_def and_then_def)
  have "st\<lparr>bookings := JArr B\<rparr> = st" using assms by simp
  then have cancelled:
    "handleCancelBooking P (length B) (st\<lparr>bookings := JArr (B @ [b])\<rparr>, store1) = Inr (st, store2)"
    using s2 by (simp add: handleCancelBooking_def without_index_length and_then_def)
  from booked cancelled show ?thesis by (auto simp: and_then_def)
qed

text \<open>
  No booking on file, one made and cancelled: the state is as before, and the slot holds
  the empty array again.
\<close>

theorem book_then_cancel_witness:
  "bookings (initial_app (JArr [])) = JArr [] \<and>
   handleBook browser a_booking (initial_app (JArr []), empty_storage) =
     Inr ((initial_app (JArr []))\<lparr>bookings := JArr [a_booking]\<rparr>,
          empty_storage\<lparr>items := [''bookings'' \<mapsto> booking_document]\<rparr>) \<and>
   and_then (handleBook browser a_booking (initial_app (JArr []), empty_storage))
     (handleCancelBooking browser 0) =
     Inr (initial_app (JArr []), empty_storage\<lparr>items := [''bookings'' \<mapsto> ''[]'']\<rparr>)"
proof -
  have start: "bookings (initial_app (JArr [])) = JArr []"
    by (simp add: initial_app_def)
  have saved: "saveBookings browser [a_booking] empty_storage =
      Inr (empty_storage\<lparr>items := [''bookings'' \<mapsto> booking_document]\<rparr>)"
    by (simp add: saveBookings_def saveBookings_try_def setItem_def and_then_def
        browser_documents empty_storage_def)
  have saved_again:
    "saveBookings browser [] (empty_storage\<lparr>items := [''bookings'' \<mapsto> booking_document]\<rparr>) =
      Inr (empty_storage\<lparr>items := [''bookings'' \<mapsto> ''[]'']\<rparr>)"
    by (simp add: saveBookings_def saveBookings_try_def setItem_def and_then_def
        browser_documents empty_storage_def)
  from book_then_cancel [OF start, of browser a_booking empty_storage]
  obtain store1 store2 where
    "handleBook browser a_booking (initial_app (JArr []), empty_storage) =
       Inr ((initial_app (JArr []))\<lparr>bookings := JArr ([] @ [a_booking])\<rparr>, store1)"
    "handleCancelBooking browser (length ([] :: jsval list))
       ((initial_app (JArr []))\<lparr>bookings := JArr ([] @ [a_booking])\<rparr>, store1) =
       Inr (initial_app (JArr []), store2)"
    "and_then (handleBook browser a_booking (initial_app (JArr []), empty_storage))
       (handleCancelBooking browser (length ([] :: jsval list))) = Inr (initial_app (JArr []), store2)"
    by blast
  moreover from this(1) have "store1 = empty_storage\<lparr>items := [''bookings'' \<mapsto> booking_document]\<rparr>"
    using saved by (simp add: handleBook_def spread_def and_then_def initial_app_def)
  moreover from this calculation(2)
  have "store2 = empty_storage\<lparr>items := [''bookings'' \<mapsto> ''[]'']\<rparr>"
    using saved_again
    by (simp add: handleCancelBooking_def and_then_def initial_app_def without_index_def)
  ultimately show ?thesis using start by simp
qed

section \<open>The search state controller\<close>

lemma selectedState_effect_clears:
  "cities (fst (selectedState_effect P st)) = [] \<and>
   selectedCity (fst (selectedState_effect P st)) = None \<and>
   searchResults (fst (selectedState_effect P st)) = []"
  by (simp add: selectedState_effect_def fetchCities_start_def split: option.split)

lemma selectedState_effect_keeps_selection:
  "selectedState (fst (selectedState_effect P st)) = selectedState st"
  by (simp add: selectedState_effect_def fetchCities_start_def split: option.split)

lemma selectedState_effect_request:
  "requested CitiesStage (snd (selectedState_effect P st)) =
     (if selected (selectedState st)
      then [(CitiesStage,
             API_BASE_URL @ ''/cities/'' @ encodeURIComponent P (text_of (selectedState st)))]
      else [])"
  by (simp add: selectedState_effect_def fetchCities_start_def split: option.split)

lemma step_SelectState:
  "s \<noteq> selectedState (app sys) \<Longrightarrow>
   step P (SelectState s) sys =
     sys\<lparr>app := fst (selectedState_effect P ((app sys)\<lparr>selectedState := s\<rparr>)),
         inflight := inflight sys @
           requested CitiesStage (snd (selectedState_effect P ((app sys)\<lparr>selectedState := s\<rparr>)))\<rparr>"
  by (simp split: prod.split)

lemma step_SelectCity:
  "app (step P (SelectCity c) sys) = (app sys)\<lparr>selectedCity := c\<rparr>"
  "inflight (step P (SelectCity c) sys) = inflight sys"
  by simp_all

lemma step_Search_clears:
  "selected (selectedState (app sys)) \<Longrightarrow> selected (selectedCity (app sys)) \<Longrightarrow>
   \<not> loading_hospitals (isLoading (app sys)) \<Longrightarrow>
   searchResults (app (step P Search sys)) = []"
  by (simp add: handleSearch_start_def)

lemma step_SelectState_clears_results:
  "s \<noteq> selectedState (app sys) \<Longrightarrow> searchResults (app (step P (SelectState s) sys)) = []"
  by (simp add: step_SelectState selectedState_effect_clears del: step.simps)

text \<open>
  Claim C3. When the selected state changes, to a state or to nothing, the step that
  handles the change leaves the cities list empty, no city selected and the search results
  empty; the request for the cities of the new state, if one is made, is the last of the
  requests under way at the end of that step, so nothing of it has arrived yet.
\<close>

theorem state_change_clears:
  assumes "s \<noteq> selectedState (app sys)"
  shows "selectedState (app (step P (SelectState s) sys)) = s \<and>
     cities (app (step P (SelectState s) sys)) = [] \<and>
     selectedCity (app (step P (SelectState s) sys)) = None \<and>
     searchResults (app (step P (SelectState s) sys)) = [] \<and>
     inflight (step P (SelectState s) sys) =
       inflight sys @
         (if selected s
          then [(CitiesStage, API_BASE_URL @ ''/cities/'' @ encodeURIComponent P (text_of s))]
          else [])"
  using assms
  by (simp add: step_SelectState selectedState_effect_clears selectedState_effect_request
      selectedState_effect_keeps_selection del: step.simps)

lemma showing_results_fields:
  "selectedState (app showing_results) = Some ''Alabama''"
  "selectedCity (app showing_results) = Some ''Dothan''"
  "cities (app showing_results) = [JStr ''Dothan'', JStr ''Mobile'']"
  "searchResults (app showing_results) = [five_fields a_hospital]"
  "isLoading (app showing_results) =
     \<lparr>loading_states = False, loading_cities = False, loading_hospitals = False\<rparr>"
  "inflight showing_results = []"
  by (simp_all add: showing_results_def initial_app_def)

lemma percent_encode_Alaska: "percent_encode ''Alaska'' = ''Alaska''"
  by code_simp

text \<open>
  From the page showing the hospitals of Dothan, Alabama: selecting Alaska, and selecting
  nothing.
\<close>

theorem state_change_clears_witness:
  "selectedState (app showing_results) = Some ''Alabama'' \<and>
   cities (app showing_results) = [JStr ''Dothan'', JStr ''Mobile''] \<and>
   cities (app (step browser (SelectState (Some ''Alaska'')) showing_results)) = [] \<and>
   selectedCity (app (step browser (SelectState (Some ''Alaska'')) showing_results)) = None \<and>
   searchResults (app (step browser (SelectState (Some ''Alaska'')) showing_results)) = [] \<and>
   inflight (step browser (SelectState (Some ''Alaska'')) showing_results) =
     [(CitiesStage, ''https://meddata-backend.onrender.com/cities/Alaska'')] \<and>
   cities (app (step browser (SelectState None) showing_results)) = [] \<and>
   selectedCity (app (step browser (SelectState None) showing_results)) = None \<and>
   searchResults (app (step browser (SelectState None) showing_results)) = [] \<and>
   inflight (step browser (SelectState None) showing_results) = []"
proof -
  have "Some ''Alaska'' \<noteq> selectedState (app showing_results)"
    "None \<noteq> selectedState (app showing_results)"
    by (simp_all add: showing_results_fields)
  from state_change_clears [OF this(1), of browser] state_change_clears [OF this(2), of browser]
  show ?thesis
    by (simp add: showing_results_fields API_BASE_URL_def browser_def percent_encode_Alaska
        del: step.simps)
qed

text \<open>
  Claim C4, as the code has it. Selecting a city is \<^verbatim>\<open>setSelectedCity\<close> alone: it
  leaves the search results, the selected state and the requests under way as they are.
  The results are emptied when a search starts, which takes a state and a city selected
  and no search under way, and when the selected state changes.
\<close>

theorem city_change_keeps_results:
  "searchResults (app (step P (SelectCity c) sys)) = searchResults (app sys) \<and>
   selectedState (app (step P (SelectCity c) sys)) = selectedState (app sys) \<and>
   selectedCity (app (step P (SelectCity c) sys)) = c \<and>
   inflight (step P (SelectCity c) sys) = inflight sys \<and>
   (selected (selectedState (app sys)) \<and> selected (selectedCity (app sys)) \<and>
      \<not> loading_hospitals (isLoading (app sys)) \<longrightarrow>
      searchResults (app (step P Search sys)) = []) \<and>
   (s \<noteq> selectedState (app sys) \<longrightarrow> searchResults (app (step P (SelectState s) sys)) = [])"
  using step_Search_clears [of sys P] step_SelectState_clears_results [of s sys P]
  by (simp add: step_SelectCity del: step.simps)

theorem city_change_keeps_results_witness:
  "searchResults (app (step browser (SelectCity (Some ''Mobile'')) showing_results)) =
     [five_fields a_hospital] \<and>
   selectedCity (app (step browser (SelectCity (Some ''Mobile'')) showing_results)) = Some ''Mobile'' \<and>
   searchResults (app (step browser Search showing_results)) = [] \<and>
   searchResults (app (step browser (SelectState (Some ''Alaska'')) showing_results)) = []"
  using city_change_keeps_results [of browser "Some ''Mobile''" showing_results "Some ''Alaska''"]
  by (simp add: showing_results_fields del: step.simps)

text \<open>
  The page shows the hospitals of Dothan, Alabama; the user selects Mobile. The state is
  still Alabama, the city is now Mobile, and the results are still those of Dothan.
\<close>

theorem city_change_counterexample:
  "selectedState (app showing_results) = Some ''Alabama'' \<and>
   selectedCity (app showing_results) = Some ''Dothan'' \<and>
   selectedState (app (step browser (SelectCity (Some ''Mobile'')) showing_results)) = Some ''Alabama'' \<and>
   selectedCity (app (step browser (SelectCity (Some ''Mobile'')) showing_results)) = Some ''Mobile'' \<and>
   searchResults (app (step browser (SelectCity (Some ''Mobile'')) showing_results)) =
     [five_fields a_hospital] \<and>
   searchResults (app (step browser (SelectCity (Some ''Mobile'')) showing_results)) \<noteq> []"
  by (simp add: showing_results_fields)

section \<open>The search results\<close>

lemma get_prop_JObj: "get_prop (JObj r) k = Inr (field r k)"
  by (simp add: field_def)

lemma projection_JObj: "projection (JObj r) = Inr (five_fields r)"
  by (simp add: projection_def and_then_def get_prop_JObj five_fields_def del: get_prop.simps)

lemma map_items_projection: "map_items projection (map JObj rs) = Inr (map five_fields rs)"
  by (induction rs) (simp_all add: projection_JObj)

lemma truthy_or_else: "truthy (or_else v (JStr [])) = truthy v"
  by (simp add: or_else_def)

lemma has_name_five_fields: "has_name (five_fields r) = Inr (named r)"
  by (simp add: has_name_def five_fields_def and_then_def named_def truthy_or_else)

lemma filter_items_has_name:
  "filter_items has_name (map five_fields rs) = Inr (map five_fields (filter named rs))"
  by (induction rs) (simp_all add: has_name_five_fields)

text \<open>Mapping and then filtering an array of objects never throws.\<close>

lemma filteredData_objects:
  "filteredData (JArr (map JObj rs)) = Inr (map five_fields (filter named rs))"
  by (simp add: filteredData_def Array_map_def and_then_def map_items_projection
      filter_items_has_name)

lemma searchResults_settle:
  "searchResults (handleSearch_settle (Inr (JArr (map JObj rs))) st) =
     map five_fields (filter named rs)"
  by (simp add: handleSearch_settle_def and_then_def filteredData_objects)

text \<open>On plain records falsiness and absence agree.\<close>

lemma plain_five_fields: "plain r \<Longrightarrow> five_fields r = spec_projection r"
  by (auto simp: plain_def plain_field_def five_fields_def spec_projection_def field_def
      spec_field_def or_else_def split: option.splits)

lemma plain_named: "plain r \<Longrightarrow> named r = (\<not> spec_name_missing_or_empty r)"
  by (auto simp: plain_def plain_field_def named_def field_def spec_name_missing_or_empty_def
      split: option.splits)

lemma plain_results:
  "\<forall>r\<in>set rs. plain r \<Longrightarrow> map five_fields (filter named rs) = spec_results rs"
  by (induction rs) (simp_all add: spec_results_def plain_five_fields plain_named)

lemma name_of_five_fields:
  "get_prop (five_fields r) ''Hospital Name'' = Inr (or_else (field r ''Hospital Name'') (JStr []))"
  by (simp add: five_fields_def)

text \<open>The projection of a record without a truthy name is not among the results.\<close>

lemma unnamed_absent:
  assumes "\<not> named r"
  shows "five_fields r \<notin> set (map five_fields (filter named rs))"
proof
  assume "five_fields r \<in> set (map five_fields (filter named rs))"
  then obtain r' where r': "named r'" "five_fields r = five_fields r'" by auto
  from r'(2) have
    "get_prop (five_fields r) ''Hospital Name'' = get_prop (five_fields r') ''Hospital Name''"
    by simp
  then have
    "or_else (field r ''Hospital Name'') (JStr []) = or_else (field r' ''Hospital Name'') (JStr [])"
    by (simp only: name_of_five_fields sum.inject)
  then have "truthy (field r ''Hospital Name'') = truthy (field r' ''Hospital Name'')"
    by (metis truthy_or_else)
  with assms r'(1) show False by (simp add: named_def)
qed

text \<open>
  Claim C5, as the code has it. For every array of hospital objects that the fetch returns,
  the search results are the records mapped to the five fields, a field that is missing
  or falsy (\<^verbatim>\<open>null\<close>, \<^verbatim>\<open>false\<close>, \<^verbatim>\<open>0\<close>, the empty string) replaced by
  the empty string, without the records whose name is missing or falsy. On plain records,
  those whose five fields are strings or truthy where present, this is the result set in
  the words of the specification. The projection of a record with no
  \<^verbatim>\<open>Hospital Name\<close> is never among the results.
\<close>

theorem search_results_projection:
  "filteredData (JArr (map JObj rs)) = Inr (map five_fields (filter named rs)) \<and>
   searchResults (handleSearch_settle (Inr (JArr (map JObj rs))) st) =
     map five_fields (filter named rs) \<and>
   ((\<forall>r\<in>set rs. plain r) \<longrightarrow> filteredData (JArr (map JObj rs)) = Inr (spec_results rs)) \<and>
   (\<forall>r. map_of r ''Hospital Name'' = None \<longrightarrow>
        five_fields r \<notin> set (searchResults (handleSearch_settle (Inr (JArr (map JObj rs))) st)))"
proof -
  have unnamed: "\<not> named r" if "map_of r ''Hospital Name'' = None" for r
    using that by (simp add: named_def field_def)
  show ?thesis
    using unnamed unnamed_absent plain_results [of rs]
    by (simp add: filteredData_objects searchResults_settle)
qed

lemma two_hospitals_plain: "\<forall>r\<in>set two_hospitals. plain r"
  by (simp add: two_hospitals_def plain_def plain_field_def)

theorem search_results_projection_witness:
  "list_all plain two_hospitals \<and>
   map_of (two_hospitals ! 1) ''Hospital Name'' = None \<and>
   filteredData (JArr (map JObj two_hospitals)) =
     Inr [JObj [(''Hospital Name'', JStr ''Mercy Clinic''), (''City'', JStr ''Dothan''),
                (''State'', JStr []), (''Hospital Type'', JStr []),
                (''Hospital overall rating'', JStr [])]] \<and>
   filteredData (JArr (map JObj two_hospitals)) = Inr (spec_results two_hospitals) \<and>
   five_fields (two_hospitals ! 1) \<notin>
     set (searchResults (handleSearch_settle (Inr (JArr (map JObj two_hospitals)))
            (app showing_results)))"
proof -
  note inst = search_results_projection [of two_hospitals "app showing_results"]
  have missing: "map_of (two_hospitals ! 1) ''Hospital Name'' = None"
    by (simp add: two_hospitals_def)
  have results: "spec_results two_hospitals =
     [JObj [(''Hospital Name'', JStr ''Mercy Clinic''), (''City'', JStr ''Dothan''),
            (''State'', JStr []), (''Hospital Type'', JStr []),
            (''Hospital overall rating'', JStr [])]]"
    by (simp add: spec_results_def spec_projection_def spec_field_def
        spec_name_missing_or_empty_def two_hospitals_def)
  from inst two_hospitals_plain
  have same: "filteredData (JArr (map JObj two_hospitals)) = Inr (spec_results two_hospitals)"
    by blast
  from inst missing
  have absent: "five_fields (two_hospitals ! 1) \<notin>
     set (searchResults (handleSearch_settle (Inr (JArr (map JObj two_hospitals)))
            (app showing_results)))"
    by blast
  from two_hospitals_plain have "list_all plain two_hospitals"
    by (simp add: list_all_iff)
  with missing same absent results show ?thesis by simp
qed

text \<open>
  A hospital with a name and the rating \<^verbatim>\<open>0\<close>: the field is not missing, and the
  result carries the empty string in its place.
\<close>

theorem rating_zero_counterexample:
  "map_of a_hospital ''Hospital overall rating'' = Some (JNum 0) \<and>
   filteredData (JArr [JObj a_hospital]) =
     Inr [JObj [(''Hospital Name'', JStr ''Mercy Clinic''), (''City'', JStr ''Dothan''),
                (''State'', JStr ''Alabama''), (''Hospital Type'', JStr ''Acute Care''),
                (''Hospital overall rating'', JStr [])]] \<and>
   spec_results [a_hospital] =
     [JObj [(''Hospital Name'', JStr ''Mercy Clinic''), (''City'', JStr ''Dothan''),
            (''State'', JStr ''Alabama''), (''Hospital Type'', JStr ''Acute Care''),
            (''Hospital overall rating'', JNum 0)]] \<and>
   filteredData (JArr [JObj a_hospital]) \<noteq> Inr (spec_results [a_hospital])"
proof -
  have "filteredData (JArr (map JObj [a_hospital])) =
      Inr (map five_fields (filter named [a_hospital]))"
    by (rule filteredData_objects)
  moreover have "named a_hospital"
    by (simp add: named_def field_def a_hospital_def)
  moreover have "five_fields a_hospital =
     JObj [(''Hospital Name'', JStr ''Mercy Clinic''), (''City'', JStr ''Dothan''),
           (''State'', JStr ''Alabama''), (''Hospital Type'', JStr ''Acute Care''),
           (''Hospital overall rating'', JStr [])]"
    by (simp add: five_fields_def field_def a_hospital_def or_else_def)
  moreover have "spec_results [a_hospital] =
     [JObj [(''Hospital Name'', JStr ''Mercy Clinic''), (''City'', JStr ''Dothan''),
            (''State'', JStr ''Alabama''), (''Hospital Type'', JStr ''Acute Care''),
            (''Hospital overall rating'', JNum 0)]]"
    by (simp add: spec_results_def spec_projection_def spec_field_def
        spec_name_missing_or_empty_def a_hospital_def)
  moreover have "map_of a_hospital ''Hospital overall rating'' = Some (JNum 0)"
    by (simp add: a_hospital_def)
  ultimately show ?thesis by simp
qed

section \<open>The loading flags\<close>

lemma fetchStates_settle_flag: "\<not> loading_states (isLoading (fetchStates_settle P outcome st))"
  by (simp add: fetchStates_settle_def Let_def split: sum.split)

lemma fetchCities_settle_flag: "\<not> loading_cities (isLoading (fetchCities_settle P outcome st))"
  by (simp add: fetchCities_settle_def Let_def split: sum.split)

lemma handleSearch_settle_flag:
  "\<not> loading_hospitals (isLoading (handleSearch_settle outcome st))"
  by (simp add: handleSearch_settle_def Let_def split: sum.split)

text \<open>
  Each flag is its stage's own: a stage leaves the flags of the other two as they are, and
  a search that does not start, for want of a state or a city, leaves all three.
\<close>

lemma other_flags_kept:
  "loading_cities (isLoading (fst (fetchStates_start st))) = loading_cities (isLoading st)"
  "loading_hospitals (isLoading (fst (fetchStates_start st))) = loading_hospitals (isLoading st)"
  "loading_cities (isLoading (fetchStates_settle P outcome st)) = loading_cities (isLoading st)"
  "loading_hospitals (isLoading (fetchStates_settle P outcome st)) = loading_hospitals (isLoading st)"
  "loading_states (isLoading (fst (selectedState_effect P st))) = loading_states (isLoading st)"
  "loading_hospitals (isLoading (fst (selectedState_effect P st))) = loading_hospitals (isLoading st)"
  "loading_states (isLoading (fetchCities_settle P outcome st)) = loading_states (isLoading st)"
  "loading_hospitals (isLoading (fetchCities_settle P outcome st)) = loading_hospitals (isLoading st)"
  "loading_states (isLoading (fst (handleSearch_start P st))) = loading_states (isLoading st)"
  "loading_cities (isLoading (fst (handleSearch_start P st))) = loading_cities (isLoading st)"
  "loading_states (isLoading (handleSearch_settle outcome st)) = loading_states (isLoading st)"
  "loading_cities (isLoading (handleSearch_settle outcome st)) = loading_cities (isLoading st)"
  by (simp_all add: fetchStates_start_def fetchStates_settle_def selectedState_effect_def
      fetchCities_start_def fetchCities_settle_def handleSearch_start_def handleSearch_settle_def
      Let_def split: sum.split option.split)

lemma handleSearch_not_started:
  "\<not> selected (selectedState st) \<or> \<not> selected (selectedCity st) \<Longrightarrow>
   handleSearch P fetch st = (st, [])"
  by (auto simp: handleSearch_def handleSearch_start_def)

text \<open>
  Claim C8. Each of the three stages sets its own flag when it starts, and has it cleared
  at its end, whether the request gave data (\<open>Inr\<close>) or failed (\<open>Inl\<close>); so the flag
  is clear after a whole run of the stage over any network. The cities stage starts when
  a state is selected, the hospitals stage when a state and a city are.
\<close>

theorem loading_flags:
  "loading_states (isLoading (fst (fetchStates_start st))) \<and>
   \<not> loading_states (isLoading (fetchStates_settle P (Inr data) st)) \<and>
   \<not> loading_states (isLoading (fetchStates_settle P (Inl e) st)) \<and>
   \<not> loading_states (isLoading (fst (fetchStates P fetch st))) \<and>
   loading_cities (isLoading (fst (fetchCities_start P s st))) \<and>
   (selected (selectedState st) \<longrightarrow> loading_cities (isLoading (fst (selectedState_effect P st)))) \<and>
   \<not> loading_cities (isLoading (fetchCities_settle P (Inr data) st)) \<and>
   \<not> loading_cities (isLoading (fetchCities_settle P (Inl e) st)) \<and>
   \<not> loading_cities (isLoading (fst (fetchCities P fetch s st))) \<and>
   (selected (selectedState st) \<and> selected (selectedCity st) \<longrightarrow>
      loading_hospitals (isLoading (fst (handleSearch_start P st))) \<and>
      \<not> loading_hospitals (isLoading (fst (handleSearch P fetch st)))) \<and>
   \<not> loading_hospitals (isLoading (handleSearch_settle (Inr data) st)) \<and>
   \<not> loading_hospitals (isLoading (handleSearch_settle (Inl e) st))"
proof -
  have a: "loading_states (isLoading (fst (fetchStates_start st)))"
    by (simp add: fetchStates_start_def)
  have b: "\<not> loading_states (isLoading (fst (fetchStates P fetch st)))"
    by (simp add: fetchStates_def fetchStates_settle_flag split: prod.split)
  have c: "loading_cities (isLoading (fst (fetchCities_start P s st)))"
    by (simp add: fetchCities_start_def)
  have d: "loading_cities (isLoading (fst (selectedState_effect P st)))"
    if "selected (selectedState st)"
    using that
    by (cases "selectedState st") (simp_all add: selectedState_effect_def fetchCities_start_def)
  have f: "\<not> loading_cities (isLoading (fst (fetchCities P fetch s st)))"
    by (simp add: fetchCities_def fetchCities_settle_flag split: prod.split)
  have g: "loading_hospitals (isLoading (fst (handleSearch_start P st)))"
    if "selected (selectedState st)" "selected (selectedCity st)"
    using that by (simp add: handleSearch_start_def)
  have h: "\<not> loading_hospitals (isLoading (fst (handleSearch P fetch st)))"
    if "selected (selectedState st)" "selected (selectedCity st)"
    using that
    by (simp add: handleSearch_def handleSearch_start_def handleSearch_settle_flag
        split: prod.split)
  show ?thesis
    using a b c d f g h
    by (simp add: fetchStates_settle_flag fetchCities_settle_flag handleSearch_settle_flag)
qed

text \<open>
  On the page showing the hospitals of Dothan, Alabama, where a state and a city are
  selected: the three stages over the network that is down.
\<close>

theorem loading_flags_witness:
  "selected (selectedState (app showing_results)) \<and>
   selected (selectedCity (app showing_results)) \<and>
   loading_states (isLoading (fst (fetchStates_start (app showing_results)))) \<and>
   \<not> loading_states (isLoading (fst (fetchStates browser dead_network (app showing_results)))) \<and>
   loading_cities (isLoading (fst (selectedState_effect browser (app showing_results)))) \<and>
   \<not> loading_cities
       (isLoading (fst (fetchCities browser dead_network ''Alabama'' (app showing_results)))) \<and>
   loading_hospitals (isLoading (fst (handleSearch_start browser (app showing_results)))) \<and>
   \<not> loading_hospitals (isLoading (fst (handleSearch browser dead_network (app showing_results)))) \<and>
   \<not> loading_hospitals
       (isLoading (handleSearch_settle (Inl (HttpError 502)) (app showing_results))) \<and>
   \<not> loading_hospitals
       (isLoading (handleSearch_settle (Inr states_reply) (app showing_results)))"
  using loading_flags
    [of "app showing_results" browser states_reply "HttpError 502" dead_network "''Alabama''"]
  by (simp add: showing_results_fields)

section \<open>Requests that outlive the selection they were made for\<close>

lemma cities_settle: "cities (fetchCities_settle P (Inr (JArr xs)) st) = Array_sort P xs"
  by (simp add: fetchCities_settle_def and_then_def Array_sort_of_def)

lemma settle_keeps_selection:
  "selectedState (fetchStates_settle P outcome st) = selectedState st"
  "selectedCity (fetchStates_settle P outcome st) = selectedCity st"
  "selectedState (fetchCities_settle P outcome st) = selectedState st"
  "selectedCity (fetchCities_settle P outcome st) = selectedCity st"
  "selectedState (handleSearch_settle outcome st) = selectedState st"
  "selectedCity (handleSearch_settle outcome st) = selectedCity st"
  by (simp_all add: fetchStates_settle_def fetchCities_settle_def handleSearch_settle_def Let_def
      split: sum.split)

lemma step_Settle:
  "k < length (inflight sys) \<Longrightarrow>
   app (step P (Settle k outcome) sys) = settle_stage P (fst (inflight sys ! k)) outcome (app sys)"
  by simp

lemma step_keeps_inflight:
  "take (length (inflight sys)) (inflight (step P (SelectState s) sys)) = inflight sys"
  "take (length (inflight sys)) (inflight (step P Search sys)) = inflight sys"
  by (simp_all split: prod.split)

text \<open>The first render of the page over an empty storage.\<close>

lemma mount_empty_storage: "mount browser empty_storage = Inr mounted"
  by (simp add: mount_def getBookings_def getBookings_try_def getItem_def and_then_def
      empty_storage_def fetchStates_start_def selectedState_effect_def initial_app_def
      mounted_def API_BASE_URL_def)

lemma stale_cities_pending_eq:
  "stale_cities_pending =
    \<lparr>app = (initial_app (JArr []))
        \<lparr>states := [JStr ''Alabama'', JStr ''Alaska''],
         cities := [JStr ''Anchorage'', JStr ''Juneau''],
         selectedState := Some ''Alaska''\<rparr>,
     inflight = [(CitiesStage, ''https://meddata-backend.onrender.com/cities/Alabama'')]\<rparr>"
  by code_simp

lemma stale_search_pending_eq:
  "stale_search_pending =
    \<lparr>app = (initial_app (JArr []))
        \<lparr>states := [JStr ''Alabama'', JStr ''Alaska''],
         selectedState := Some ''Alaska'',
         isLoading := \<lparr>loading_states = False, loading_cities = True, loading_hospitals = True\<rparr>\<rparr>,
     inflight =
       [(HospitalsStage, ''https://meddata-backend.onrender.com/data?state=Alabama&city=Dothan''),
        (CitiesStage, ''https://meddata-backend.onrender.com/cities/Alaska'')]\<rparr>"
  by code_simp

lemma sorted_cities: "Array_sort browser [JStr ''Mobile'', JStr ''Dothan''] = [JStr ''Dothan'', JStr ''Mobile'']"
  by code_simp

lemma two_hospitals_results:
  "map five_fields (filter named two_hospitals) =
     [JObj [(''Hospital Name'', JStr ''Mercy Clinic''), (''City'', JStr ''Dothan''),
            (''State'', JStr []), (''Hospital Type'', JStr []),
            (''Hospital overall rating'', JStr [])]]"
  by (simp add: two_hospitals_def named_def field_def five_fields_def or_else_def)

text \<open>
  Claim C9. No step that changes the selection or starts a search removes a request that
  is under way: the requests before the step are still there after it, in their order.
  And when a request settles with an array, the cities stage stores the sorted array and
  the hospitals stage stores the projected records whatever the selection is at that
  moment and whatever URL the request was made for, the selection staying as it is: nothing
  compares the request with the current selection before the result is applied.
\<close>

theorem stale_response_overwrites:
  "take (length (inflight sys)) (inflight (step P (SelectState s) sys)) = inflight sys \<and>
   inflight (step P (SelectCity c) sys) = inflight sys \<and>
   take (length (inflight sys)) (inflight (step P Search sys)) = inflight sys \<and>
   (k < length (inflight sys) \<and> fst (inflight sys ! k) = CitiesStage \<longrightarrow>
      cities (app (step P (Settle k (Inr (JArr xs))) sys)) = Array_sort P xs \<and>
      selectedState (app (step P (Settle k (Inr (JArr xs))) sys)) = selectedState (app sys)) \<and>
   (k < length (inflight sys) \<and> fst (inflight sys ! k) = HospitalsStage \<longrightarrow>
      searchResults (app (step P (Settle k (Inr (JArr (map JObj rs)))) sys)) =
        map five_fields (filter named rs) \<and>
      selectedState (app (step P (Settle k (Inr (JArr (map JObj rs)))) sys)) =
        selectedState (app sys) \<and>
      selectedCity (app (step P (Settle k (Inr (JArr (map JObj rs)))) sys)) =
        selectedCity (app sys))"
  by (simp add: step_keeps_inflight step_SelectCity step_Settle settle_keeps_selection
      cities_settle searchResults_settle del: step.simps)

text \<open>
  The two runs. Alaska is selected and its cities are shown when the cities of Alabama
  arrive and take their place. Alaska is selected and no city is when the hospitals of
  Dothan, Alabama arrive and are shown.
\<close>

theorem stale_response_overwrites_witness:
  "selectedState (app stale_cities_pending) = Some ''Alaska'' \<and>
   cities (app stale_cities_pending) = [JStr ''Anchorage'', JStr ''Juneau''] \<and>
   inflight stale_cities_pending =
     [(CitiesStage, ''https://meddata-backend.onrender.com/cities/Alabama'')] \<and>
   cities (app (step browser (Settle 0 (Inr (JArr [JStr ''Mobile'', JStr ''Dothan''])))
                  stale_cities_pending)) = [JStr ''Dothan'', JStr ''Mobile''] \<and>
   selectedState (app (step browser (Settle 0 (Inr (JArr [JStr ''Mobile'', JStr ''Dothan''])))
                  stale_cities_pending)) = Some ''Alaska'' \<and>
   selectedState (app stale_search_pending) = Some ''Alaska'' \<and>
   selectedCity (app stale_search_pending) = None \<and>
   searchResults (app stale_search_pending) = [] \<and>
   inflight stale_search_pending =
     [(HospitalsStage, ''https://meddata-backend.onrender.com/data?state=Alabama&city=Dothan''),
      (CitiesStage, ''https://meddata-backend.onrender.com/cities/Alaska'')] \<and>
   searchResults (app (step browser (Settle 0 (Inr (JArr (map JObj two_hospitals))))
                         stale_search_pending)) =
     [JObj [(''Hospital Name'', JStr ''Mercy Clinic''), (''City'', JStr ''Dothan''),
            (''State'', JStr []), (''Hospital Type'', JStr []),
            (''Hospital overall rating'', JStr [])]] \<and>
   selectedState (app (step browser (Settle 0 (Inr (JArr (map JObj two_hospitals))))
                         stale_search_pending)) = Some ''Alaska''"
proof -
  have c: "0 < length (inflight stale_cities_pending) \<and>
      fst (inflight stale_cities_pending ! 0) = CitiesStage"
    by (simp add: stale_cities_pending_eq)
  have h: "0 < length (inflight stale_search_pending) \<and>
      fst (inflight stale_search_pending ! 0) = HospitalsStage"
    by (simp add: stale_search_pending_eq)
  note cities_case =
    stale_response_overwrites
      [where sys = stale_cities_pending and P = browser and k = 0
         and xs = "[JStr ''Mobile'', JStr ''Dothan'']",
       THEN conjunct2, THEN conjunct2, THEN conjunct2, THEN conjunct1, THEN mp, OF c]
  note hospitals_case =
    stale_response_overwrites
      [where sys = stale_search_pending and P = browser and k = 0 and rs = two_hospitals,
       THEN conjunct2, THEN conjunct2, THEN conjunct2, THEN conjunct2, THEN mp, OF h]
  have "selectedState (app stale_cities_pending) = Some ''Alaska''"
    "cities (app stale_cities_pending) = [JStr ''Anchorage'', JStr ''Juneau'']"
    "inflight stale_cities_pending =
       [(CitiesStage, ''https://meddata-backend.onrender.com/cities/Alabama'')]"
    by (simp_all add: stale_cities_pending_eq)
  moreover have "selectedState (app stale_search_pending) = Some ''Alaska''"
    "selectedCity (app stale_search_pending) = None"
    "searchResults (app stale_search_pending) = []"
    "inflight stale_search_pending =
       [(HospitalsStage, ''https://meddata-backend.onrender.com/data?state=Alabama&city=Dothan''),
        (CitiesStage, ''https://meddata-backend.onrender.com/cities/Alaska'')]"
    by (simp_all add: stale_search_pending_eq initial_app_def)
  ultimately show ?thesis
    using cities_case hospitals_case
    by (simp add: sorted_cities two_hospitals_results del: step.simps)
qed

end
